theory Spec2Isabelle
  imports Main
begin

section \<open>The quiz controller: data model\<close>

text \<open>
  The development follows \<^verbatim>\<open>src/components/quiz/QuizController.tsx\<close>. The component keeps
  its state in React state cells; the model gathers the cells in one record and turns every
  handler into a function from the state before the call to the state after it. A handler
  reads the cells of the latest render, so each handler is applied to the current state.
  Calls of \<^verbatim>\<open>console.log\<close> and \<^verbatim>\<open>console.error\<close> are left out.
\<close>

datatype QuizStage =
  Intro | Questions | InterstitialA | InterstitialB | InterstitialC | Interstitial | Redirecting

text \<open>The tags \<^verbatim>\<open>'a' | 'b' | 'c'\<close> of \<^verbatim>\<open>currentInterstitial\<close>.\<close>

datatype InterstitialType = A | B | C

text \<open>
  \<^verbatim>\<open>QuizAnswer\<close> and the question type are declared in \<^verbatim>\<open>@/types/quiz\<close>; the controller
  reads the fields \<^verbatim>\<open>questionId\<close> and \<^verbatim>\<open>value\<close> of an answer and the field \<^verbatim>\<open>id\<close> of a
  question, here \<open>answerValue\<close> and \<open>questionIdent\<close>. The prompt and the options of a
  question are only read by the helpers of \<^verbatim>\<open>@/utils/quizUtils\<close>.
\<close>

record QuizAnswer =
  questionId :: string
  answerValue :: string

record QuizOption =
  optionValue :: string
  optionLabel :: string

record QuizQuestion =
  questionIdent :: string
  questionText :: string
  questionOptions :: "QuizOption list"

text \<open>
  \<^verbatim>\<open>webhookUrl\<close> is kept as the list of its UTF-16 code units, since \<^verbatim>\<open>trim\<close> looks at
  code units beyond ASCII. The other strings are only compared for equality.
\<close>

record QuizConfig =
  questions :: "QuizQuestion list"
  webhookUrl :: "int list option"

text \<open>
  The callbacks handed to \<^verbatim>\<open>setTimeout\<close>, each with the values its closure captured when
  the handler ran. Functional updates (\<^verbatim>\<open>prev => [...prev, id]\<close>) read the state of the
  moment the callback runs.
\<close>

datatype Timer =
  ShowInterstitialTimer InterstitialType
| NextQuestionTimer string
| InterstitialContinueTimer "string option"
| InterstitialBackTimer "string option"
| PreviousTimer string "string list"

text \<open>The delay, in milliseconds, each callback is scheduled with.\<close>

fun timerDelay :: "Timer \<Rightarrow> nat" where
  "timerDelay (ShowInterstitialTimer k) = 300"
| "timerDelay (NextQuestionTimer n) = 50"
| "timerDelay (InterstitialContinueTimer n) = 500"
| "timerDelay (InterstitialBackTimer p) = 500"
| "timerDelay (PreviousTimer p h) = 50"

text \<open>
  The state cells of the component. \<^verbatim>\<open>participant.name\<close> and \<^verbatim>\<open>participant.email\<close> are
  never written, so only \<^verbatim>\<open>participant.answers\<close> is kept. \<open>timers\<close> is the queue of
  scheduled callbacks that have not run yet.
\<close>

record QuizState =
  stage :: QuizStage
  currentQuestionId :: "string option"
  questionHistory :: "string list"
  isTransitioning :: bool
  isInterstitialTransitioning :: bool
  currentInterstitial :: "InterstitialType option"
  answers :: "QuizAnswer list"
  hasSentCompletionData :: bool
  timers :: "Timer list"

text \<open>
  JavaScript truthiness of a \<^verbatim>\<open>string | null\<close>: \<^verbatim>\<open>null\<close> and the empty string are falsy.
\<close>

fun truthy :: "'a list option \<Rightarrow> bool" where
  "truthy None = False"
| "truthy (Some s) = (s \<noteq> [])"

text \<open>\<^verbatim>\<open>Array.prototype.findIndex\<close>: the first index whose element satisfies the test, or -1.\<close>

fun findIndex :: "('a \<Rightarrow> bool) \<Rightarrow> 'a list \<Rightarrow> int" where
  "findIndex P [] = -1"
| "findIndex P (x # xs) =
     (if P x then 0 else (let r = findIndex P xs in if r = -1 then -1 else r + 1))"

subsection \<open>Initial state (lines 17 to 40)\<close>

definition initialState :: "QuizConfig \<Rightarrow> QuizState" where
  "initialState config =
     \<lparr> stage = Questions,
       currentQuestionId =
         (if length (questions config) > 0 then Some (questionIdent (questions config ! 0))
          else None),
       questionHistory =
         (if length (questions config) > 0 then [questionIdent (questions config ! 0)] else []),
       isTransitioning = False,
       isInterstitialTransitioning = False,
       currentInterstitial = None,
       answers = [],
       hasSentCompletionData = False,
       timers = [] \<rparr>"

text \<open>
  The condition the completion effect tests for "no question left" (line 44): the stage is
  still \<^verbatim>\<open>"questions"\<close> and \<^verbatim>\<open>currentQuestionId\<close> is \<^verbatim>\<open>null\<close>.
\<close>

definition noCurrentQuestion :: "QuizState \<Rightarrow> bool" where
  "noCurrentQuestion s = (stage s = Questions \<and> currentQuestionId s = None)"

subsection \<open>Recording an answer (lines 100 to 118)\<close>

definition handleAnswer :: "QuizAnswer \<Rightarrow> QuizState \<Rightarrow> QuizState" where
  "handleAnswer answer s =
     (let existingIndex = findIndex (\<lambda>a. questionId a = questionId answer) (answers s)
      in if existingIndex > -1
         then s\<lparr>answers := (answers s)[nat existingIndex := answer]\<rparr>
         else s\<lparr>answers := answers s @ [answer]\<rparr>)"

subsection \<open>Derived display values (lines 267 to 281)\<close>








subsection \<open>The helpers of \<^verbatim>\<open>@/utils/quizUtils\<close>\<close>

text \<open>
  The controller imports \<^verbatim>\<open>getNextQuestionId\<close>, \<^verbatim>\<open>getQuestionText\<close> and \<^verbatim>\<open>getOptionText\<close>
  from a module whose source is not part of the development; the handlers take them as
  parameters, with the argument order of the calls in the controller.
\<close>

record QuizUtils =
  getNextQuestionId :: "string \<Rightarrow> QuizAnswer list \<Rightarrow> QuizQuestion list \<Rightarrow> string option"
  getQuestionText :: "string \<Rightarrow> QuizConfig \<Rightarrow> string"
  getOptionText :: "string \<Rightarrow> string \<Rightarrow> QuizConfig \<Rightarrow> string"

text \<open>
  Modelled from the spec: the body of \<^verbatim>\<open>getNextQuestionId\<close> is missing. The spec describes a
  pure function \<^verbatim>\<open>nextId(currentId, answers, catalog) -> id | null\<close> that "supports simple
  linear order"; this is the linear order: the entry after the current one, \<^verbatim>\<open>null\<close> after
  the last entry or for an identifier the catalog does not hold.
\<close>

definition linearNextQuestionId ::
  "string \<Rightarrow> QuizAnswer list \<Rightarrow> QuizQuestion list \<Rightarrow> string option" where
  "linearNextQuestionId cur as qs =
     (let i = findIndex (\<lambda>q. questionIdent q = cur) qs
      in if i = -1 \<or> int (length qs) \<le> i + 1 then None
         else Some (questionIdent (qs ! nat (i + 1))))"

text \<open>
  Modelled from the spec: the body of \<^verbatim>\<open>getQuestionText\<close> is missing. The spec calls its
  result the "prompt text" of the answered question, "derived via the Question Catalog";
  for an identifier the catalog does not hold the spec says nothing and the model returns the
  empty string.
\<close>

definition catalogQuestionText :: "string \<Rightarrow> QuizConfig \<Rightarrow> string" where
  "catalogQuestionText qid config =
     (case find (\<lambda>q. questionIdent q = qid) (questions config) of
        None \<Rightarrow> [] | Some q \<Rightarrow> questionText q)"

text \<open>
  Modelled from the spec: the body of \<^verbatim>\<open>getOptionText\<close> is missing. The spec calls its result
  "the human-readable label of the selected option"; where the question or the option is not
  found the spec says nothing and the model returns the empty string.
\<close>

definition catalogOptionText :: "string \<Rightarrow> string \<Rightarrow> QuizConfig \<Rightarrow> string" where
  "catalogOptionText qid v config =
     (case find (\<lambda>q. questionIdent q = qid) (questions config) of
        None \<Rightarrow> []
      | Some q \<Rightarrow>
          (case find (\<lambda>opt. optionValue opt = v) (questionOptions q) of
             None \<Rightarrow> [] | Some opt \<Rightarrow> optionLabel opt))"

definition catalogUtils :: QuizUtils where
  "catalogUtils =
     \<lparr> getNextQuestionId = linearNextQuestionId,
       getQuestionText = catalogQuestionText,
       getOptionText = catalogOptionText \<rparr>"

subsection \<open>Navigation (lines 121 to 264)\<close>

definition shouldShowInterstitial :: "string \<Rightarrow> string \<Rightarrow> InterstitialType option" where
  "shouldShowInterstitial fromQuestionId toQuestionId =
     (if fromQuestionId = ''q1'' \<and> toQuestionId = ''q2'' then Some A
      else if fromQuestionId = ''q3'' \<and> toQuestionId = ''q4'' then Some B
      else if fromQuestionId = ''q5'' \<and> toQuestionId = ''q6'' then Some C
      else None)"

text \<open>The stage named by the template string \<^verbatim>\<open>`interstitial-${interstitialType}`\<close>.\<close>

fun interstitialStage :: "InterstitialType \<Rightarrow> QuizStage" where
  "interstitialStage A = InterstitialA"
| "interstitialStage B = InterstitialB"
| "interstitialStage C = InterstitialC"

definition handleNext :: "QuizUtils \<Rightarrow> QuizConfig \<Rightarrow> QuizState \<Rightarrow> QuizState" where
  "handleNext utils config s =
     (if \<not> truthy (currentQuestionId s) then s
      else
        (let nextQuestionId =
               getNextQuestionId utils (the (currentQuestionId s)) (answers s) (questions config)
         in if truthy nextQuestionId then
              (case shouldShowInterstitial (the (currentQuestionId s)) (the nextQuestionId) of
                 Some interstitialType \<Rightarrow>
                   s\<lparr>isTransitioning := True,
                     timers := timers s @ [ShowInterstitialTimer interstitialType]\<rparr>
               | None \<Rightarrow>
                   s\<lparr>isTransitioning := True,
                     timers := timers s @ [NextQuestionTimer (the nextQuestionId)]\<rparr>)
            else s\<lparr>currentQuestionId := None\<rparr>))"

definition handleInterstitialContinue :: "QuizState \<Rightarrow> QuizState" where
  "handleInterstitialContinue s =
     (if currentInterstitial s = None \<or> isInterstitialTransitioning s then s
      else
        (let nextQuestionId =
               (if currentInterstitial s = Some A then Some ''q2''
                else if currentInterstitial s = Some B then Some ''q4''
                else if currentInterstitial s = Some C then Some ''q6''
                else None)
         in s\<lparr>isInterstitialTransitioning := True,
              timers := timers s @ [InterstitialContinueTimer nextQuestionId]\<rparr>))"

definition handleInterstitialBack :: "QuizState \<Rightarrow> QuizState" where
  "handleInterstitialBack s =
     (if currentInterstitial s = None \<or> isInterstitialTransitioning s then s
      else
        (let previousQuestionId =
               (if currentInterstitial s = Some A then Some ''q1''
                else if currentInterstitial s = Some B then Some ''q3''
                else if currentInterstitial s = Some C then Some ''q5''
                else None)
         in s\<lparr>isInterstitialTransitioning := True,
              timers := timers s @ [InterstitialBackTimer previousQuestionId]\<rparr>))"

text \<open>
  After the guard the history has at least two entries, so \<^verbatim>\<open>newHistory\<close> is not empty and
  \<^verbatim>\<open>newHistory[newHistory.length - 1]\<close> is its last entry.
\<close>

definition handlePrevious :: "QuizState \<Rightarrow> QuizState" where
  "handlePrevious s =
     (if length (questionHistory s) \<le> 1 then s
      else if currentInterstitial s \<noteq> None then handleInterstitialBack s
      else
        (let newHistory = butlast (questionHistory s);
             previousQuestionId = last newHistory
         in s\<lparr>isTransitioning := True,
              timers := timers s @ [PreviousTimer previousQuestionId newHistory]\<rparr>))"

text \<open>What a scheduled callback does to the state when it runs.\<close>

fun runTimer :: "Timer \<Rightarrow> QuizState \<Rightarrow> QuizState" where
  "runTimer (ShowInterstitialTimer interstitialType) s =
     s\<lparr>stage := interstitialStage interstitialType,
       currentInterstitial := Some interstitialType,
       isTransitioning := False\<rparr>"
| "runTimer (NextQuestionTimer nextQuestionId) s =
     s\<lparr>currentQuestionId := Some nextQuestionId,
       questionHistory := questionHistory s @ [nextQuestionId],
       isTransitioning := False\<rparr>"
| "runTimer (InterstitialContinueTimer nextQuestionId) s =
     (if truthy nextQuestionId
      then s\<lparr>stage := Questions,
             currentQuestionId := nextQuestionId,
             questionHistory := questionHistory s @ [the nextQuestionId],
             currentInterstitial := None,
             isInterstitialTransitioning := False\<rparr>
      else s\<lparr>isInterstitialTransitioning := False\<rparr>)"
| "runTimer (InterstitialBackTimer previousQuestionId) s =
     (if truthy previousQuestionId
      then s\<lparr>stage := Questions,
             currentQuestionId := previousQuestionId,
             currentInterstitial := None,
             isInterstitialTransitioning := False\<rparr>
      else s\<lparr>isInterstitialTransitioning := False\<rparr>)"
| "runTimer (PreviousTimer previousQuestionId newHistory) s =
     s\<lparr>currentQuestionId := Some previousQuestionId,
       questionHistory := newHistory,
       isTransitioning := False\<rparr>"

text \<open>The \<open>i\<close>-th pending callback runs and leaves the queue.\<close>

definition fireTimer :: "nat \<Rightarrow> QuizState \<Rightarrow> QuizState" where
  "fireTimer i s =
     (if i < length (timers s)
      then runTimer (timers s ! i) (s\<lparr>timers := take i (timers s) @ drop (Suc i) (timers s)\<rparr>)
      else s)"

text \<open>All pending callbacks run, in the order they were scheduled.\<close>

definition settle :: "QuizState \<Rightarrow> QuizState" where
  "settle s = foldl (\<lambda>st t. runTimer t st) (s\<lparr>timers := []\<rparr>) (timers s)"

subsection \<open>The completion effect (lines 43 to 98)\<close>

text \<open>
  The environment of the effect: whether \<^verbatim>\<open>window.parent === window\<close> (the page is not
  embedded), and whether the call of \<^verbatim>\<open>window.parent.postMessage\<close> throws.
\<close>

record Environment =
  parentIsSelf :: bool
  postMessageThrows :: bool

record WebhookPayload =
  payloadName :: string
  payloadEmail :: string
  payloadScore :: "(string \<times> string) list"
  payloadQuizzId :: string

text \<open>
  What the body of the effect does, in the order of the source: calls of state setters,
  the webhook request (with its URL and payload; the e-mail argument is the constant of the
  payload), the message to the parent window (one constructor for a call that returns, one
  for a call that throws) and the assignment to \<^verbatim>\<open>window.location.href\<close>.
\<close>

datatype Action =
  SetHasSentCompletionData bool
| SetStage QuizStage
| SendWebhook "int list" WebhookPayload
| PostMessage string
| PostMessageThrew string
| SetLocationHref string

text \<open>
  The object \<^verbatim>\<open>humanReadableMap\<close> starts as \<^verbatim>\<open>{}\<close> and is kept as the list of its own
  properties in the order of their creation. Assignment \<^verbatim>\<open>obj[key] = v\<close> with a string
  \<open>v\<close>: for the key \<^verbatim>\<open>__proto__\<close> the setter inherited from \<^verbatim>\<open>Object.prototype\<close> runs and,
  the value not being an object, stores nothing; an existing own property keeps its place
  and takes the new value; any other key becomes a new own property.
\<close>

definition protoKey :: string where
  "protoKey = ''__proto__''"

fun assignOwn :: "string \<Rightarrow> string \<Rightarrow> (string \<times> string) list \<Rightarrow> (string \<times> string) list" where
  "assignOwn k v [] = [(k, v)]"
| "assignOwn k v (p # ps) = (if fst p = k then (k, v) # ps else p # assignOwn k v ps)"

definition assign :: "string \<Rightarrow> string \<Rightarrow> (string \<times> string) list \<Rightarrow> (string \<times> string) list" where
  "assign k v obj = (if k = protoKey then obj else assignOwn k v obj)"

definition humanReadableMap ::
  "QuizUtils \<Rightarrow> QuizConfig \<Rightarrow> QuizAnswer list \<Rightarrow> (string \<times> string) list" where
  "humanReadableMap utils config as =
     foldl (\<lambda>m ans. assign (getQuestionText utils (questionId ans) config)
                            (getOptionText utils (questionId ans) (answerValue ans) config) m)
           [] as"

text \<open>
  The order in which \<^verbatim>\<open>JSON.stringify\<close> visits the own properties: the keys that are array
  indices (canonical decimal numerals from 0 to 4294967294) in ascending numeric order, then
  the other keys in the order of their creation.
\<close>

definition digitOf :: "char \<Rightarrow> int option" where
  "digitOf c =
     map_of [(CHR ''0'', 0), (CHR ''1'', 1), (CHR ''2'', 2), (CHR ''3'', 3), (CHR ''4'', 4),
             (CHR ''5'', 5), (CHR ''6'', 6), (CHR ''7'', 7), (CHR ''8'', 8), (CHR ''9'', 9)] c"

definition decimalValue :: "string \<Rightarrow> int" where
  "decimalValue k = foldl (\<lambda>n c. 10 * n + (case digitOf c of None \<Rightarrow> 0 | Some d \<Rightarrow> d)) 0 k"

definition isArrayIndex :: "string \<Rightarrow> bool" where
  "isArrayIndex k =
     (k \<noteq> [] \<and> list_all (\<lambda>c. digitOf c \<noteq> None) k \<and> (k = ''0'' \<or> hd k \<noteq> CHR ''0'')
      \<and> decimalValue k \<le> 4294967294)"

definition ownEntries :: "(string \<times> string) list \<Rightarrow> (string \<times> string) list" where
  "ownEntries obj =
     sort_key (\<lambda>p. decimalValue (fst p)) (filter (\<lambda>p. isArrayIndex (fst p)) obj)
     @ filter (\<lambda>p. \<not> isArrayIndex (fst p)) obj"

text \<open>
  \<^verbatim>\<open>score\<close> holds the entries \<^verbatim>\<open>JSON.stringify\<close> writes, in its order, where the source holds
  the resulting text.
\<close>

definition payloadOverride :: "QuizUtils \<Rightarrow> QuizConfig \<Rightarrow> QuizState \<Rightarrow> WebhookPayload" where
  "payloadOverride utils config s =
     \<lparr> payloadName = ''Spanish Learner'',
       payloadEmail = ''Spanishlearner@fallsale.com'',
       payloadScore = ownEntries (humanReadableMap utils config (answers s)),
       payloadQuizzId = ''fall-sale'' \<rparr>"

text \<open>
  \<^verbatim>\<open>url.trim() !== ""\<close>: some code unit of the string is neither white space nor a line
  terminator (the code units \<^verbatim>\<open>trim\<close> strips: TAB, LF, VT, FF, CR, SP, U+00A0, U+1680,
  U+2000 to U+200A, U+2028, U+2029, U+202F, U+205F, U+3000 and U+FEFF).
\<close>

definition isWhiteSpace :: "int \<Rightarrow> bool" where
  "isWhiteSpace u =
     (u \<in> set [0x0009, 0x000A, 0x000B, 0x000C, 0x000D, 0x0020, 0x00A0, 0x1680,
                0x2000, 0x2001, 0x2002, 0x2003, 0x2004, 0x2005, 0x2006, 0x2007, 0x2008,
                0x2009, 0x200A, 0x2028, 0x2029, 0x202F, 0x205F, 0x3000, 0xFEFF])"

definition webhookConfigured :: "QuizConfig \<Rightarrow> bool" where
  "webhookConfigured config =
     (truthy (webhookUrl config) \<and> list_ex (\<lambda>u. \<not> isWhiteSpace u) (the (webhookUrl config)))"

definition redirectUrl :: string where
  "redirectUrl = ''https://spanishvip.com/sale/new-year/adults/''"

text \<open>Lines 79 to 96: the \<^verbatim>\<open>try\<close> block and its \<^verbatim>\<open>catch\<close>.\<close>

definition redirectActions :: "Environment \<Rightarrow> Action list" where
  "redirectActions env =
     (if postMessageThrows env
      then [PostMessageThrew redirectUrl, SetLocationHref redirectUrl]
      else PostMessage redirectUrl #
             (if parentIsSelf env then [SetLocationHref redirectUrl] else []))"

definition completionCondition :: "QuizState \<Rightarrow> bool" where
  "completionCondition s =
     (stage s = Questions \<and> currentQuestionId s = None \<and> length (answers s) > 0
      \<and> \<not> hasSentCompletionData s)"

definition completionActions ::
  "QuizUtils \<Rightarrow> QuizConfig \<Rightarrow> Environment \<Rightarrow> QuizState \<Rightarrow> Action list" where
  "completionActions utils config env s =
     [SetHasSentCompletionData True, SetStage Redirecting]
     @ (if webhookConfigured config
        then [SendWebhook (the (webhookUrl config)) (payloadOverride utils config s)]
        else [])
     @ redirectActions env"

fun applyAction :: "Action \<Rightarrow> QuizState \<Rightarrow> QuizState" where
  "applyAction (SetHasSentCompletionData b) s = s\<lparr>hasSentCompletionData := b\<rparr>"
| "applyAction (SetStage st) s = s\<lparr>stage := st\<rparr>"
| "applyAction (SendWebhook url payload) s = s"
| "applyAction (PostMessage url) s = s"
| "applyAction (PostMessageThrew url) s = s"
| "applyAction (SetLocationHref url) s = s"

text \<open>
  One evaluation of the effect: the state after it and the actions it performed (none when
  the condition of line 44 is false).
\<close>

definition completionEffect ::
  "QuizUtils \<Rightarrow> QuizConfig \<Rightarrow> Environment \<Rightarrow> QuizState \<Rightarrow> QuizState \<times> Action list" where
  "completionEffect utils config env s =
     (if completionCondition s
      then (foldl (\<lambda>st a. applyAction a st) s (completionActions utils config env s),
            completionActions utils config env s)
      else (s, []))"

text \<open>The three kinds of action that leave the page.\<close>

fun isWebhook :: "Action \<Rightarrow> bool" where
  "isWebhook (SendWebhook url payload) = True"
| "isWebhook a = False"

fun isParentMessage :: "Action \<Rightarrow> bool" where
  "isParentMessage (PostMessage url) = True"
| "isParentMessage (PostMessageThrew url) = True"
| "isParentMessage a = False"

fun isNavigation :: "Action \<Rightarrow> bool" where
  "isNavigation (SetLocationHref url) = True"
| "isNavigation a = False"

subsection \<open>Sessions\<close>

text \<open>
  What can happen to the mounted component: the display components call a handler, a
  scheduled callback runs, or the component renders again. After each of them React renders
  and evaluates the effect.
\<close>

datatype Event =
  AnswerEvent QuizAnswer
| NextEvent
| PreviousEvent
| InterstitialContinueEvent
| TimerEvent nat
| RenderEvent

fun dispatch :: "QuizUtils \<Rightarrow> QuizConfig \<Rightarrow> Event \<Rightarrow> QuizState \<Rightarrow> QuizState" where
  "dispatch utils config (AnswerEvent a) s = handleAnswer a s"
| "dispatch utils config NextEvent s = handleNext utils config s"
| "dispatch utils config PreviousEvent s = handlePrevious s"
| "dispatch utils config InterstitialContinueEvent s = handleInterstitialContinue s"
| "dispatch utils config (TimerEvent i) s = fireTimer i s"
| "dispatch utils config RenderEvent s = s"

definition step ::
  "QuizUtils \<Rightarrow> QuizConfig \<Rightarrow> Environment \<Rightarrow> Event \<Rightarrow> QuizState \<Rightarrow> QuizState \<times> Action list"
  where
  "step utils config env ev s = completionEffect utils config env (dispatch utils config ev s)"

fun run ::
  "QuizUtils \<Rightarrow> QuizConfig \<Rightarrow> Environment \<Rightarrow> Event list \<Rightarrow> QuizState
     \<Rightarrow> QuizState \<times> Action list" where
  "run utils config env [] s = (s, [])"
| "run utils config env (ev # evs) s =
     (let r1 = step utils config env ev s;
          r2 = run utils config env evs (fst r1)
      in (fst r2, snd r1 @ snd r2))"

text \<open>
  An intent issued while no transition is in flight: the handler runs, then the callback it
  scheduled, then the effect is evaluated. The intents are the three navigation requests and
  the recording of an answer.
\<close>

datatype Intent = Advance | Retreat | ExitInterstitialForward | RecordAnswer QuizAnswer

fun intentHandler :: "QuizUtils \<Rightarrow> QuizConfig \<Rightarrow> Intent \<Rightarrow> QuizState \<Rightarrow> QuizState" where
  "intentHandler utils config Advance s = handleNext utils config s"
| "intentHandler utils config Retreat s = handlePrevious s"
| "intentHandler utils config ExitInterstitialForward s = handleInterstitialContinue s"
| "intentHandler utils config (RecordAnswer a) s = handleAnswer a s"

definition perform ::
  "QuizUtils \<Rightarrow> QuizConfig \<Rightarrow> Environment \<Rightarrow> QuizState \<Rightarrow> Intent \<Rightarrow> QuizState" where
  "perform utils config env s i =
     fst (completionEffect utils config env (settle (intentHandler utils config i s)))"

definition performAll ::
  "QuizUtils \<Rightarrow> QuizConfig \<Rightarrow> Environment \<Rightarrow> Intent list \<Rightarrow> QuizState \<Rightarrow> QuizState" where
  "performAll utils config env is s = foldl (perform utils config env) s is"

text \<open>
  \<^verbatim>\<open>renderStage\<close> hands \<^verbatim>\<open>handleAnswer\<close> to the question card only, and renders the question
  card only in the stage \<^verbatim>\<open>"questions"\<close> (lines 298 to 308). \<open>answersOnQuestionCards\<close> says
  of a session that each of its answers is recorded in that stage; a session without
  \<open>RecordAnswer\<close> satisfies it.
\<close>

fun answersOnQuestionCards ::
  "QuizUtils \<Rightarrow> QuizConfig \<Rightarrow> Environment \<Rightarrow> Intent list \<Rightarrow> QuizState \<Rightarrow> bool" where
  "answersOnQuestionCards utils config env [] s = True"
| "answersOnQuestionCards utils config env (i # is) s =
     ((case i of RecordAnswer a \<Rightarrow> stage s = Questions | _ \<Rightarrow> True)
      \<and> answersOnQuestionCards utils config env is (perform utils config env s i))"


subsection \<open>Example catalogs, environments and sessions\<close>

definition mkQuestion :: "string \<Rightarrow> string \<Rightarrow> QuizQuestion" where
  "mkQuestion i t =
     \<lparr> questionIdent = i, questionText = t,
       questionOptions = [\<lparr>optionValue = ''a'', optionLabel = ''Option A''\<rparr>,
                          \<lparr>optionValue = ''b'', optionLabel = ''Option B''\<rparr>] \<rparr>"

text \<open>The code units of \<^verbatim>\<open>https://hooks.example.com/quiz\<close>.\<close>

definition exampleWebhookUrl :: "int list" where
  "exampleWebhookUrl =
     [104, 116, 116, 112, 115, 58, 47, 47, 104, 111, 111, 107, 115, 46, 101, 120, 97, 109,
      112, 108, 101, 46, 99, 111, 109, 47, 113, 117, 105, 122]"

text \<open>The catalog of the scenarios of the specification: six questions in linear order.\<close>

definition exampleConfig :: QuizConfig where
  "exampleConfig =
     \<lparr> questions =
         [mkQuestion ''q1'' ''Why Spanish?'', mkQuestion ''q2'' ''Your level?'',
          mkQuestion ''q3'' ''Your goal?'', mkQuestion ''q4'' ''How often?'',
          mkQuestion ''q5'' ''Which format?'', mkQuestion ''q6'' ''When to start?''],
       webhookUrl = Some exampleWebhookUrl \<rparr>"

definition emptyConfig :: QuizConfig where
  "emptyConfig = \<lparr> questions = [], webhookUrl = None \<rparr>"

definition oneQuestionConfig :: QuizConfig where
  "oneQuestionConfig =
     \<lparr> questions = [mkQuestion ''q1'' ''Why Spanish?''],
       webhookUrl = Some exampleWebhookUrl \<rparr>"

definition embeddedEnv :: Environment where
  "embeddedEnv = \<lparr> parentIsSelf = False, postMessageThrows = False \<rparr>"

definition topLevelEnv :: Environment where
  "topLevelEnv = \<lparr> parentIsSelf = True, postMessageThrows = False \<rparr>"

definition throwingEnv :: Environment where
  "throwingEnv = \<lparr> parentIsSelf = False, postMessageThrows = True \<rparr>"

definition answerA :: "string \<Rightarrow> QuizAnswer" where
  "answerA q = \<lparr> questionId = q, answerValue = ''a'' \<rparr>"

definition answerB :: "string \<Rightarrow> QuizAnswer" where
  "answerB q = \<lparr> questionId = q, answerValue = ''b'' \<rparr>"

text \<open>The first two questions of the example catalog answered.\<close>

definition answeredState :: QuizState where
  "answeredState =
     handleAnswer (answerB ''q2'') (handleAnswer (answerA ''q1'') (initialState exampleConfig))"

text \<open>The only question of a one-question catalog answered, then \<^verbatim>\<open>handleNext\<close>.\<close>

definition completedState :: QuizState where
  "completedState =
     handleNext catalogUtils oneQuestionConfig
       (handleAnswer (answerA ''q1'') (initialState oneQuestionConfig))"

definition completionSession :: "Event list" where
  "completionSession =
     [AnswerEvent (answerA ''q1''), NextEvent, RenderEvent, NextEvent, PreviousEvent,
      AnswerEvent (answerB ''q1''), RenderEvent]"

text \<open>The example catalog after \<^verbatim>\<open>handleNext\<close> on its first question and the 300 ms callback.\<close>

definition interstitialAState :: QuizState where
  "interstitialAState = settle (handleNext catalogUtils exampleConfig (initialState exampleConfig))"








definition secondQuestionState :: QuizState where
  "secondQuestionState =
     performAll catalogUtils exampleConfig embeddedEnv
       [Advance, ExitInterstitialForward] (initialState exampleConfig)"

text \<open>
  A session in which \<^verbatim>\<open>handleNext\<close> is called on the second question and again before the
  50 ms callback of the first call has run.
\<close>

definition rapidNextSession :: "Event list" where
  "rapidNextSession =
     [NextEvent, TimerEvent 0, InterstitialContinueEvent, TimerEvent 0,
      NextEvent, NextEvent, TimerEvent 0, TimerEvent 0]"

section \<open>Properties\<close>

subsection \<open>Facts about \<open>findIndex\<close>\<close>

lemma findIndex_lower: "- 1 \<le> findIndex P xs"
  by (induction xs) (auto simp: Let_def)

lemma findIndex_none_iff: "findIndex P xs = - 1 \<longleftrightarrow> (\<forall>x \<in> set xs. \<not> P x)"
proof (induction xs)
  case Nil
  show ?case by simp
next
  case (Cons x xs)
  have "- 1 \<le> findIndex P xs" by (rule findIndex_lower)
  with Cons show ?case by (auto simp: Let_def)
qed

lemma findIndex_found:
  assumes "findIndex P xs \<noteq> - 1"
  shows "nat (findIndex P xs) < length xs \<and> P (xs ! nat (findIndex P xs))
         \<and> (\<forall>j < nat (findIndex P xs). \<not> P (xs ! j))"
  using assms
proof (induction xs)
  case Nil
  then show ?case by simp
next
  case (Cons x xs)
  show ?case
  proof (cases "P x")
    case True
    then show ?thesis by simp
  next
    case False
    with Cons.prems have ne: "findIndex P xs \<noteq> - 1" by (auto simp: Let_def split: if_splits)
    have lo: "- 1 \<le> findIndex P xs" by (rule findIndex_lower)
    with ne have nn: "0 \<le> findIndex P xs" by arith
    then have eq: "nat (findIndex P xs + 1) = Suc (nat (findIndex P xs))" by arith
    from Cons.IH [OF ne] False ne eq show ?thesis
      by (auto simp: Let_def nth_Cons split: nat.splits)
  qed
qed

subsection \<open>The answer ledger\<close>

text \<open>
  Claim C6. \<^verbatim>\<open>handleAnswer\<close> is total and changes nothing but the ledger. If the ledger holds
  an entry for the question of the answer, the first such entry is overwritten in place: the
  length of the ledger and the sequence of its question identifiers stay as they were and no
  other position changes. Otherwise the answer is appended at the end.
\<close>

theorem handleAnswer_replace_or_append:
  "handleAnswer a s = s\<lparr>answers := answers (handleAnswer a s)\<rparr>
   \<and> ((\<exists>b \<in> set (answers s). questionId b = questionId a) \<longrightarrow>
        (\<exists>i < length (answers s).
            questionId (answers s ! i) = questionId a
            \<and> (\<forall>j < i. questionId (answers s ! j) \<noteq> questionId a)
            \<and> answers (handleAnswer a s) = (answers s)[i := a])
        \<and> length (answers (handleAnswer a s)) = length (answers s)
        \<and> map questionId (answers (handleAnswer a s)) = map questionId (answers s))
   \<and> ((\<forall>b \<in> set (answers s). questionId b \<noteq> questionId a) \<longrightarrow>
        answers (handleAnswer a s) = answers s @ [a])"
proof (intro conjI impI)
  show "handleAnswer a s = s\<lparr>answers := answers (handleAnswer a s)\<rparr>"
    by (simp add: handleAnswer_def Let_def)
next
  assume ex: "\<exists>b \<in> set (answers s). questionId b = questionId a"
  let ?P = "\<lambda>b. questionId b = questionId a"
  let ?i = "nat (findIndex ?P (answers s))"
  from ex have ne: "findIndex ?P (answers s) \<noteq> - 1"
    by (simp add: findIndex_none_iff)
  have lo: "- 1 \<le> findIndex ?P (answers s)" by (rule findIndex_lower)
  from ne lo have gt: "findIndex ?P (answers s) > - 1" by arith
  from findIndex_found [OF ne]
  have f: "?i < length (answers s)" "?P (answers s ! ?i)" "\<forall>j < ?i. \<not> ?P (answers s ! j)"
    by blast+
  from gt have upd: "answers (handleAnswer a s) = (answers s)[?i := a]"
    by (simp add: handleAnswer_def Let_def)
  from f upd show "\<exists>i < length (answers s).
            questionId (answers s ! i) = questionId a
            \<and> (\<forall>j < i. questionId (answers s ! j) \<noteq> questionId a)
            \<and> answers (handleAnswer a s) = (answers s)[i := a]"
    by blast
  from upd show "length (answers (handleAnswer a s)) = length (answers s)" by simp
  from upd f show "map questionId (answers (handleAnswer a s)) = map questionId (answers s)"
    by (simp add: map_update list_update_same_conv)
next
  assume "\<forall>b \<in> set (answers s). questionId b \<noteq> questionId a"
  then have "findIndex (\<lambda>b. questionId b = questionId a) (answers s) = - 1"
    by (simp add: findIndex_none_iff)
  then show "answers (handleAnswer a s) = answers s @ [a]"
    by (simp add: handleAnswer_def Let_def)
qed

theorem handleAnswer_replace_or_append_witness:
  "(\<exists>b \<in> set (answers answeredState). questionId b = questionId (answerB ''q1''))
   \<and> answers (handleAnswer (answerB ''q1'') answeredState) = [answerB ''q1'', answerB ''q2'']
   \<and> questionId (answerA ''q3'') \<notin> questionId ` set (answers answeredState)
   \<and> answers (handleAnswer (answerA ''q3'') answeredState)
       = [answerA ''q1'', answerB ''q2'', answerA ''q3'']"
proof -
  have l: "answers answeredState = [answerA ''q1'', answerB ''q2'']"
    by (simp add: answeredState_def handleAnswer_def initialState_def answerA_def answerB_def)
  have h1: "\<exists>b \<in> set (answers answeredState). questionId b = questionId (answerB ''q1'')"
    by (simp add: l answerA_def answerB_def)
  have h2: "\<forall>b \<in> set (answers answeredState). questionId b \<noteq> questionId (answerA ''q3'')"
    by (simp add: l answerA_def answerB_def)
  from handleAnswer_replace_or_append [of "answerB ''q1''" answeredState] h1
  obtain i where i: "i < length (answers answeredState)"
      "questionId (answers answeredState ! i) = questionId (answerB ''q1'')"
      "answers (handleAnswer (answerB ''q1'') answeredState) = (answers answeredState)[i := answerB ''q1'']"
    by blast
  from i(1,2) have "i = 0"
    by (cases i) (auto simp: l answerA_def answerB_def)
  with i(3) have c1: "answers (handleAnswer (answerB ''q1'') answeredState)
      = [answerB ''q1'', answerB ''q2'']"
    by (simp add: l)
  from handleAnswer_replace_or_append [of "answerA ''q3''" answeredState] h2
  have c2: "answers (handleAnswer (answerA ''q3'') answeredState)
      = [answerA ''q1'', answerB ''q2'', answerA ''q3'']"
    by (simp add: l)
  from h2 have h3: "questionId (answerA ''q3'') \<notin> questionId ` set (answers answeredState)"
    by auto
  from h1 c1 h3 c2 show ?thesis by blast
qed

subsection \<open>Session start\<close>

text \<open>
  Claim C9. With a catalog that is not empty the component starts in the stage
  \<^verbatim>\<open>"questions"\<close> on the first catalog entry, whose identifier is the only entry of the
  history. With an empty catalog it starts in the condition the completion effect takes for
  "no question left", with \<^verbatim>\<open>currentQuestionId\<close> \<^verbatim>\<open>null\<close>.
\<close>

theorem initialState_start:
  "(questions config \<noteq> [] \<longrightarrow>
      stage (initialState config) = Questions
      \<and> currentQuestionId (initialState config) = Some (questionIdent (questions config ! 0))
      \<and> questionHistory (initialState config) = [questionIdent (questions config ! 0)])
   \<and> (questions config = [] \<longrightarrow>
      noCurrentQuestion (initialState config) \<and> currentQuestionId (initialState config) = None)"
  by (simp add: initialState_def noCurrentQuestion_def)

theorem initialState_start_witness:
  "questions exampleConfig \<noteq> []
   \<and> stage (initialState exampleConfig) = Questions
   \<and> currentQuestionId (initialState exampleConfig) = Some ''q1''
   \<and> questionHistory (initialState exampleConfig) = [''q1'']
   \<and> questions emptyConfig = []
   \<and> noCurrentQuestion (initialState emptyConfig)
   \<and> currentQuestionId (initialState emptyConfig) = None"
  using initialState_start [of exampleConfig] initialState_start [of emptyConfig]
  by (simp add: exampleConfig_def emptyConfig_def mkQuestion_def)

subsection \<open>Derived display values\<close>




subsection \<open>Leaving an interstitial forward\<close>

text \<open>
  Claim C5. Let the binding table map the transition from \<open>x\<close> to \<open>toId\<close> to the
  interstitial \<open>k\<close>. In the stage of \<open>k\<close>, with \<open>k\<close> the current interstitial and no
  transition in flight, \<^verbatim>\<open>handleInterstitialContinue\<close> followed by its 500 ms callback sets the
  stage to \<^verbatim>\<open>"questions"\<close>, makes \<open>toId\<close> the current question, appends exactly \<open>toId\<close> to
  the history and clears the current interstitial; nothing else changes. Between the call
  and the callback the interstitial transition flag is set.
\<close>

theorem exitInterstitialForward_lands_on_target:
  assumes "shouldShowInterstitial x toId = Some k"
    and "stage s = interstitialStage k"
    and "currentInterstitial s = Some k"
    and "\<not> isInterstitialTransitioning s"
    and "timers s = []"
  shows "settle (handleInterstitialContinue s) =
           s\<lparr>stage := Questions, currentQuestionId := Some toId,
             questionHistory := questionHistory s @ [toId], currentInterstitial := None\<rparr>
         \<and> isInterstitialTransitioning (handleInterstitialContinue s)
         \<and> map timerDelay (timers (handleInterstitialContinue s)) = [500]"
  using assms
  by (cases k) (auto simp: shouldShowInterstitial_def handleInterstitialContinue_def settle_def
      split: if_splits)

theorem exitInterstitialForward_lands_on_target_witness:
  "shouldShowInterstitial ''q1'' ''q2'' = Some A
   \<and> stage interstitialAState = interstitialStage A
   \<and> currentInterstitial interstitialAState = Some A
   \<and> \<not> isInterstitialTransitioning interstitialAState
   \<and> timers interstitialAState = []
   \<and> questionHistory interstitialAState = [''q1'']
   \<and> stage (settle (handleInterstitialContinue interstitialAState)) = Questions
   \<and> currentQuestionId (settle (handleInterstitialContinue interstitialAState)) = Some ''q2''
   \<and> questionHistory (settle (handleInterstitialContinue interstitialAState)) = [''q1'', ''q2'']
   \<and> currentInterstitial (settle (handleInterstitialContinue interstitialAState)) = None"
proof -
  have h1: "shouldShowInterstitial ''q1'' ''q2'' = Some A" by code_simp
  have h2: "stage interstitialAState = interstitialStage A" by code_simp
  have h3: "currentInterstitial interstitialAState = Some A" by code_simp
  have h4: "\<not> isInterstitialTransitioning interstitialAState" by code_simp
  have h5: "timers interstitialAState = []" by code_simp
  have h6: "questionHistory interstitialAState = [''q1'']" by code_simp
  from exitInterstitialForward_lands_on_target [OF h1 h2 h3 h4 h5]
  have "settle (handleInterstitialContinue interstitialAState) =
           interstitialAState\<lparr>stage := Questions, currentQuestionId := Some ''q2'',
             questionHistory := questionHistory interstitialAState @ [''q2''],
             currentInterstitial := None\<rparr>"
    by blast
  with h1 h2 h3 h4 h5 h6 show ?thesis by simp
qed

subsection \<open>The redirect\<close>

text \<open>
  Claim C8. The redirect starts with the call of \<^verbatim>\<open>window.parent.postMessage\<close>. If the call
  returns and the page is its own parent (it is not embedded), the assignment to
  \<^verbatim>\<open>window.location.href\<close> follows; if the call returns and the page is embedded, the message
  is all there is; if the call throws, the assignment to \<^verbatim>\<open>window.location.href\<close> follows.
  So a delivered message or a direct navigation is always among the actions, and whenever
  the completion effect fires these actions end its trace.
\<close>

theorem redirect_always_initiated:
  "(\<exists>rest. redirectActions env = PostMessage redirectUrl # rest
           \<or> redirectActions env = PostMessageThrew redirectUrl # rest)
   \<and> (\<not> postMessageThrows env \<and> parentIsSelf env \<longrightarrow>
        redirectActions env = [PostMessage redirectUrl, SetLocationHref redirectUrl])
   \<and> (\<not> postMessageThrows env \<and> \<not> parentIsSelf env \<longrightarrow>
        redirectActions env = [PostMessage redirectUrl])
   \<and> (postMessageThrows env \<longrightarrow>
        redirectActions env = [PostMessageThrew redirectUrl, SetLocationHref redirectUrl])
   \<and> (PostMessage redirectUrl \<in> set (redirectActions env)
        \<or> SetLocationHref redirectUrl \<in> set (redirectActions env))
   \<and> (completionCondition s \<longrightarrow>
        (\<exists>before. snd (completionEffect utils config env s) = before @ redirectActions env))"
  by (simp add: redirectActions_def completionEffect_def completionActions_def)

theorem redirect_always_initiated_witness:
  "\<not> postMessageThrows topLevelEnv \<and> parentIsSelf topLevelEnv
   \<and> redirectActions topLevelEnv = [PostMessage redirectUrl, SetLocationHref redirectUrl]
   \<and> \<not> postMessageThrows embeddedEnv \<and> \<not> parentIsSelf embeddedEnv
   \<and> redirectActions embeddedEnv = [PostMessage redirectUrl]
   \<and> postMessageThrows throwingEnv
   \<and> redirectActions throwingEnv = [PostMessageThrew redirectUrl, SetLocationHref redirectUrl]
   \<and> completionCondition completedState
   \<and> (\<exists>before. snd (completionEffect catalogUtils oneQuestionConfig throwingEnv completedState)
         = before @ [PostMessageThrew redirectUrl, SetLocationHref redirectUrl])"
proof -
  have t: "\<not> postMessageThrows topLevelEnv \<and> parentIsSelf topLevelEnv"
    by (simp add: topLevelEnv_def)
  have e: "\<not> postMessageThrows embeddedEnv \<and> \<not> parentIsSelf embeddedEnv"
    by (simp add: embeddedEnv_def)
  have x: "postMessageThrows throwingEnv"
    by (simp add: throwingEnv_def)
  have c: "completionCondition completedState" by code_simp
  from redirect_always_initiated [of topLevelEnv] t
  have r1: "redirectActions topLevelEnv = [PostMessage redirectUrl, SetLocationHref redirectUrl]"
    by blast
  from redirect_always_initiated [of embeddedEnv] e
  have r2: "redirectActions embeddedEnv = [PostMessage redirectUrl]"
    by blast
  from redirect_always_initiated [of throwingEnv completedState catalogUtils oneQuestionConfig] x c
  have r3: "redirectActions throwingEnv = [PostMessageThrew redirectUrl, SetLocationHref redirectUrl]"
    and r4: "\<exists>before. snd (completionEffect catalogUtils oneQuestionConfig throwingEnv completedState)
         = before @ redirectActions throwingEnv"
    by blast+
  from r4 r3 have r5: "\<exists>before.
      snd (completionEffect catalogUtils oneQuestionConfig throwingEnv completedState)
         = before @ [PostMessageThrew redirectUrl, SetLocationHref redirectUrl]"
    by simp
  from t e x c r1 r2 r3 r5 show ?thesis by blast
qed

subsection \<open>The completion latch\<close>

text \<open>No handler and no scheduled callback writes \<^verbatim>\<open>hasSentCompletionData\<close>.\<close>

lemma runTimer_latch: "hasSentCompletionData (runTimer t s) = hasSentCompletionData s"
  by (cases t) simp_all

lemma fireTimer_latch: "hasSentCompletionData (fireTimer i s) = hasSentCompletionData s"
  by (simp add: fireTimer_def runTimer_latch)

lemma handleAnswer_latch: "hasSentCompletionData (handleAnswer a s) = hasSentCompletionData s"
  by (simp add: handleAnswer_def Let_def)

lemma handleNext_latch:
  "hasSentCompletionData (handleNext utils config s) = hasSentCompletionData s"
  by (simp add: handleNext_def Let_def split: option.splits)

lemma handleInterstitialContinue_latch:
  "hasSentCompletionData (handleInterstitialContinue s) = hasSentCompletionData s"
  by (simp add: handleInterstitialContinue_def Let_def)

lemma handleInterstitialBack_latch:
  "hasSentCompletionData (handleInterstitialBack s) = hasSentCompletionData s"
  by (simp add: handleInterstitialBack_def Let_def)

lemma handlePrevious_latch: "hasSentCompletionData (handlePrevious s) = hasSentCompletionData s"
  by (simp add: handlePrevious_def Let_def handleInterstitialBack_latch)

lemma dispatch_latch:
  "hasSentCompletionData (dispatch utils config ev s) = hasSentCompletionData s"
  by (cases ev)
     (simp_all add: handleAnswer_latch handleNext_latch handlePrevious_latch
        handleInterstitialContinue_latch fireTimer_latch)

lemma applyAction_redirectActions:
  "foldl (\<lambda>st a. applyAction a st) s (redirectActions env) = s"
  by (simp add: redirectActions_def)

lemma completionEffect_fired:
  "completionCondition s \<Longrightarrow>
     completionEffect utils config env s =
       (s\<lparr>hasSentCompletionData := True, stage := Redirecting\<rparr>,
        completionActions utils config env s)"
  by (simp add: completionEffect_def completionActions_def applyAction_redirectActions)

lemma completionEffect_idle:
  "\<not> completionCondition s \<Longrightarrow> completionEffect utils config env s = (s, [])"
  by (simp add: completionEffect_def)

lemma latch_blocks_condition: "hasSentCompletionData s \<Longrightarrow> \<not> completionCondition s"
  by (simp add: completionCondition_def)

lemma step_after_latch:
  assumes "hasSentCompletionData s"
  shows "step utils config env ev s = (dispatch utils config ev s, [])"
proof -
  from assms have "hasSentCompletionData (dispatch utils config ev s)"
    by (simp add: dispatch_latch)
  then have "\<not> completionCondition (dispatch utils config ev s)"
    by (rule latch_blocks_condition)
  then show ?thesis by (simp add: step_def completionEffect_idle)
qed

lemma run_after_latch:
  "hasSentCompletionData s \<Longrightarrow> snd (run utils config env evs s) = []"
proof (induction evs arbitrary: s)
  case Nil
  show ?case by simp
next
  case (Cons ev evs)
  from Cons.prems have st: "step utils config env ev s = (dispatch utils config ev s, [])"
    by (rule step_after_latch)
  from Cons.prems have "hasSentCompletionData (dispatch utils config ev s)"
    by (simp add: dispatch_latch)
  then have "snd (run utils config env evs (dispatch utils config ev s)) = []"
    by (rule Cons.IH)
  with st show ?case by (simp add: Let_def)
qed

lemma run_single_firing:
  "snd (run utils config env evs s) = []
   \<or> (\<exists>s'. completionCondition s'
          \<and> snd (run utils config env evs s) = completionActions utils config env s')"
proof (induction evs arbitrary: s)
  case Nil
  show ?case by simp
next
  case (Cons ev evs)
  let ?d = "dispatch utils config ev s"
  show ?case
  proof (cases "completionCondition ?d")
    case True
    then have st: "step utils config env ev s =
        (?d\<lparr>hasSentCompletionData := True, stage := Redirecting\<rparr>,
         completionActions utils config env ?d)"
      by (simp add: step_def completionEffect_fired)
    have "snd (run utils config env evs (?d\<lparr>hasSentCompletionData := True, stage := Redirecting\<rparr>)) = []"
      by (rule run_after_latch) simp
    with st have "snd (run utils config env (ev # evs) s) = completionActions utils config env ?d"
      by (simp add: Let_def)
    with True show ?thesis by blast
  next
    case False
    then have st: "step utils config env ev s = (?d, [])"
      by (simp add: step_def completionEffect_idle)
    then have "snd (run utils config env (ev # evs) s) = snd (run utils config env evs ?d)"
      by (simp add: Let_def)
    with Cons.IH [of ?d] show ?thesis by simp
  qed
qed

lemma completionActions_counts:
  "length (filter isWebhook (completionActions utils config env s)) \<le> 1
   \<and> length (filter isParentMessage (completionActions utils config env s)) = 1
   \<and> length (filter isNavigation (completionActions utils config env s)) \<le> 1"
  by (simp add: completionActions_def redirectActions_def)

text \<open>
  Claim C1. One evaluation of the completion effect acts exactly when the stage is
  \<^verbatim>\<open>"questions"\<close> with no current question, the ledger is not empty and the latch
  \<^verbatim>\<open>hasSentCompletionData\<close> is unset. When it acts, setting the latch is the first thing it
  does, before the webhook and the redirect, and the latch is set in the state it leaves.
  From a state whose latch is set, no sequence of handler calls, callbacks and renders (each
  followed by a new evaluation of the effect) performs any action. So the actions of a whole
  session, from any state, are either none or those of a single firing, with at most one
  webhook request, one message to the parent and one direct navigation.
\<close>

theorem completion_at_most_once:
  "(snd (completionEffect utils config env s) \<noteq> []
      \<longleftrightarrow> noCurrentQuestion s \<and> answers s \<noteq> [] \<and> \<not> hasSentCompletionData s)
   \<and> (completionCondition s \<longrightarrow>
        (\<exists>rest. snd (completionEffect utils config env s) = SetHasSentCompletionData True # rest)
        \<and> hasSentCompletionData (fst (completionEffect utils config env s)))
   \<and> (hasSentCompletionData s \<longrightarrow> snd (run utils config env evs s) = [])
   \<and> (snd (run utils config env evs s) = []
        \<or> (\<exists>s'. completionCondition s'
              \<and> snd (run utils config env evs s) = completionActions utils config env s'))
   \<and> length (filter isWebhook (snd (run utils config env evs s))) \<le> 1
   \<and> length (filter isParentMessage (snd (run utils config env evs s))) \<le> 1
   \<and> length (filter isNavigation (snd (run utils config env evs s))) \<le> 1"
proof -
  have p1: "snd (completionEffect utils config env s) \<noteq> []
      \<longleftrightarrow> noCurrentQuestion s \<and> answers s \<noteq> [] \<and> \<not> hasSentCompletionData s"
    by (simp add: completionEffect_def completionActions_def completionCondition_def
        noCurrentQuestion_def)
  have p2: "completionCondition s \<longrightarrow>
        (\<exists>rest. snd (completionEffect utils config env s) = SetHasSentCompletionData True # rest)
        \<and> hasSentCompletionData (fst (completionEffect utils config env s))"
    by (simp add: completionEffect_fired completionActions_def)
  have p3: "hasSentCompletionData s \<longrightarrow> snd (run utils config env evs s) = []"
    by (simp add: run_after_latch)
  have p4: "snd (run utils config env evs s) = []
        \<or> (\<exists>s'. completionCondition s'
              \<and> snd (run utils config env evs s) = completionActions utils config env s')"
    by (rule run_single_firing)
  have p5: "length (filter isWebhook (snd (run utils config env evs s))) \<le> 1
   \<and> length (filter isParentMessage (snd (run utils config env evs s))) \<le> 1
   \<and> length (filter isNavigation (snd (run utils config env evs s))) \<le> 1"
  proof -
    from p4 show ?thesis
    proof
      assume "snd (run utils config env evs s) = []"
      then show ?thesis by simp
    next
      assume "\<exists>s'. completionCondition s'
              \<and> snd (run utils config env evs s) = completionActions utils config env s'"
      then obtain s' where "snd (run utils config env evs s) = completionActions utils config env s'"
        by blast
      with completionActions_counts [of utils config env s'] show ?thesis by simp
    qed
  qed
  from p1 p2 p3 p4 p5 show ?thesis by blast
qed

theorem completion_at_most_once_witness:
  "completionCondition completedState
   \<and> hasSentCompletionData (fst (completionEffect catalogUtils oneQuestionConfig embeddedEnv completedState))
   \<and> snd (run catalogUtils oneQuestionConfig embeddedEnv completionSession
             (fst (completionEffect catalogUtils oneQuestionConfig embeddedEnv completedState))) = []
   \<and> length (filter isParentMessage
        (snd (run catalogUtils oneQuestionConfig embeddedEnv completionSession
               (initialState oneQuestionConfig)))) = 1"
proof -
  have c: "completionCondition completedState" by code_simp
  have n: "length (filter isParentMessage
        (snd (run catalogUtils oneQuestionConfig embeddedEnv completionSession
               (initialState oneQuestionConfig)))) = 1" by code_simp
  note t = completion_at_most_once [of catalogUtils oneQuestionConfig embeddedEnv completedState completionSession]
  from t c have l: "hasSentCompletionData (fst (completionEffect catalogUtils oneQuestionConfig embeddedEnv completedState))"
    by blast
  from completion_at_most_once [of catalogUtils oneQuestionConfig embeddedEnv
         "fst (completionEffect catalogUtils oneQuestionConfig embeddedEnv completedState)" completionSession] l
  have "snd (run catalogUtils oneQuestionConfig embeddedEnv completionSession
             (fst (completionEffect catalogUtils oneQuestionConfig embeddedEnv completedState))) = []"
    by blast
  with c l n show ?thesis by blast
qed

subsection \<open>The answer summary\<close>













subsection \<open>The history under gated navigation\<close>














lemma navigation_needs_no_question_card:
  "\<forall>i \<in> set is. i \<in> {Advance, Retreat, ExitInterstitialForward} \<Longrightarrow>
     answersOnQuestionCards utils config env is s"
  by (induction "is" arbitrary: s) auto




subsection \<open>Going back from an interstitial\<close>

text \<open>
  \<^verbatim>\<open>handlePrevious\<close> on an interstitial that was entered with more than one entry in the
  history: the 500 ms callback of \<^verbatim>\<open>handleInterstitialBack\<close> sets the stage to
  \<^verbatim>\<open>"questions"\<close> and clears the current interstitial, the current question and the history
  stay as they were. With one entry in the history \<^verbatim>\<open>handlePrevious\<close> returns at its first
  guard.
\<close>

lemma handlePrevious_from_interstitial:
  assumes "currentQuestionId s = Some x"
    and "getNextQuestionId utils x (answers s) (questions config) = Some toId"
    and "shouldShowInterstitial x toId = Some k"
    and "timers s = []"
    and "\<not> isInterstitialTransitioning s"
  shows "stage (settle (handleNext utils config s)) = interstitialStage k
     \<and> currentInterstitial (settle (handleNext utils config s)) = Some k
     \<and> (1 < length (questionHistory s) \<longrightarrow>
          settle (handlePrevious (settle (handleNext utils config s)))
            = (settle (handleNext utils config s))
                \<lparr>stage := Questions, currentInterstitial := None\<rparr>
          \<and> currentQuestionId (settle (handlePrevious (settle (handleNext utils config s)))) = Some x
          \<and> questionHistory (settle (handlePrevious (settle (handleNext utils config s))))
              = questionHistory s)
     \<and> (length (questionHistory s) \<le> 1 \<longrightarrow>
          settle (handlePrevious (settle (handleNext utils config s)))
            = settle (handleNext utils config s))"
proof -
  from assms(3) have ne: "x \<noteq> []" "toId \<noteq> []"
    by (auto simp: shouldShowInterstitial_def split: if_splits)
  from assms ne have h: "handleNext utils config s =
      s\<lparr>isTransitioning := True, timers := [ShowInterstitialTimer k]\<rparr>"
    by (simp add: handleNext_def)
  have e: "settle (handleNext utils config s) =
      s\<lparr>isTransitioning := False, timers := [], stage := interstitialStage k,
        currentInterstitial := Some k\<rparr>"
    by (simp add: h settle_def)
  have p1: "stage (settle (handleNext utils config s)) = interstitialStage k"
    and p2: "currentInterstitial (settle (handleNext utils config s)) = Some k"
    by (simp_all add: e)
  have p3: "settle (handlePrevious (settle (handleNext utils config s)))
            = (settle (handleNext utils config s))\<lparr>stage := Questions, currentInterstitial := None\<rparr>
          \<and> currentQuestionId (settle (handlePrevious (settle (handleNext utils config s)))) = Some x
          \<and> questionHistory (settle (handlePrevious (settle (handleNext utils config s))))
              = questionHistory s"
    if "1 < length (questionHistory s)"
  proof -
    from assms(3) have src: "(k = A \<longrightarrow> x = ''q1'') \<and> (k = B \<longrightarrow> x = ''q3'') \<and> (k = C \<longrightarrow> x = ''q5'')"
      by (auto simp: shouldShowInterstitial_def split: if_splits)
    show ?thesis
      unfolding e using that assms src
      by (cases k) (simp_all add: handlePrevious_def handleInterstitialBack_def settle_def)
  qed
  have p4: "settle (handlePrevious (settle (handleNext utils config s)))
            = settle (handleNext utils config s)"
    if "length (questionHistory s) \<le> 1"
    unfolding e using that by (simp add: handlePrevious_def settle_def)
  from p1 p2 p3 p4 show ?thesis by blast
qed


subsection \<open>Navigation intents during a transition\<close>

text \<open>
  Claim C2 says that a navigation intent arriving during a transition is dropped. On the
  second question of the example catalog, \<^verbatim>\<open>handleNext\<close> sets \<^verbatim>\<open>isTransitioning\<close> and
  schedules its callback; a second \<^verbatim>\<open>handleNext\<close> before the callback runs schedules a second
  callback, and after both have run the history ends in \<open>q3, q3\<close>. \<^verbatim>\<open>handlePrevious\<close> in the
  same window schedules its callback as well.
\<close>

theorem rapid_advance_not_dropped:
  "isTransitioning (handleNext catalogUtils exampleConfig secondQuestionState)
   \<and> timers (handleNext catalogUtils exampleConfig secondQuestionState) = [NextQuestionTimer ''q3'']
   \<and> timers (handleNext catalogUtils exampleConfig
        (handleNext catalogUtils exampleConfig secondQuestionState))
       = [NextQuestionTimer ''q3'', NextQuestionTimer ''q3'']
   \<and> questionHistory secondQuestionState = [''q1'', ''q2'']
   \<and> questionHistory (fst (run catalogUtils exampleConfig embeddedEnv rapidNextSession
        (initialState exampleConfig))) = [''q1'', ''q2'', ''q3'', ''q3'']
   \<and> timers (handlePrevious (handleNext catalogUtils exampleConfig secondQuestionState))
       = [NextQuestionTimer ''q3'', PreviousTimer ''q1'' [''q1'']]"
  by code_simp

end
